theory Spec2Isabelle
  imports Complex_Main
begin

section \<open>The PR2 dashboard panel (pr2\_dashboard.py)\<close>

text \<open>
  The panel is event-driven glue between a status topic, a handful of indicator
  widgets, two remote services and two dialogs. Everything it does to the outside is
  a method call on an object whose class lives elsewhere, so the embedding records
  those calls, in order, as a list of events; the fields the panel itself owns are a
  record that each handler takes and returns.
\<close>

subsection \<open>Messages\<close>

text \<open>\<^verbatim>\<open>std_msgs/Bool\<close>: the callback reads \<^verbatim>\<open>msg.motors_halted.data\<close>.\<close>

record std_Bool =
  data :: bool

text \<open>
  Modelled from the spec: the breaker states of \<^verbatim>\<open>pr2_msgs/PowerBoardState\<close>. The
  message class and its constant \<^verbatim>\<open>PowerBoardState.STATE_ON\<close> are imported from
  \<^verbatim>\<open>pr2_msgs\<close>; the data model names the per-breaker enumeration OFF, STANDBY, ON.
  The panel only ever compares an entry with \<^verbatim>\<open>STATE_ON\<close>.
\<close>

datatype circuit = STATE_OFF | STATE_STANDBY | STATE_ON

text \<open>The fields of the power-board section that the panel reads.\<close>

record PowerBoardState =
  circuit_state :: "circuit list"
  run_stop :: bool
  wireless_stop :: bool

text \<open>
  \<^verbatim>\<open>pr2_msgs/DashboardState\<close>. The panel never looks inside \<^verbatim>\<open>power_state\<close>; it
  hands the value to the battery widget, so its type is a parameter.
\<close>

record 'ps DashboardState =
  motors_halted_valid :: bool
  motors_halted :: std_Bool
  power_state_valid :: bool
  power_state :: 'ps
  power_board_state_valid :: bool
  power_board_state :: PowerBoardState

subsection \<open>Widgets, dialogs and services\<close>

text \<open>
  The widgets \<^verbatim>\<open>setup\<close> creates, each named by its constructor call. They are created
  once and the fields holding them are never assigned again.
\<close>

datatype widget =
    PR2Motors
  | PR2BreakerButton string nat
  | PR2Runstops string
  | PR2Battery

definition motors :: widget where
  "motors = PR2Motors"

definition breakers :: "widget list" where
  "breakers = [PR2BreakerButton ''Left Arm'' 0,
               PR2BreakerButton ''Base'' 1,
               PR2BreakerButton ''Right Arm'' 2]"

definition runstop :: widget where
  "runstop = PR2Runstops ''RunStops''"

definition batteries :: "widget list" where
  "batteries = [PR2Battery]"

text \<open>The widget methods the panel calls, with their arguments.\<close>

datatype 'ps call =
    set_ok
  | set_error
  | set_stale
  | set_physical_engaged
  | set_wireless_engaged
  | setToolTip string
  | set_power_state 'ps
  | set_power_board_state_msg PowerBoardState
  | reset
  | set_enable

datatype StandardButton = Yes | No

text \<open>
  What the panel does to the outside world:
  \<^item> \<open>Call w r\<close>: the method call \<open>r\<close> on widget \<open>w\<close>;
  \<^item> \<open>Question parent title text buttons default\<close>: \<^verbatim>\<open>QMessageBox.question\<close>, a modal
    dialog that returns the button the user chose;
  \<^item> \<open>Critical parent title text\<close>: \<^verbatim>\<open>QMessageBox.critical\<close>, a modal error dialog;
  \<^item> \<open>ServiceCall name\<close>: one call, with an empty request, of a
    \<^verbatim>\<open>std_srvs/Empty\<close> service proxy for \<open>name\<close>.
\<close>

datatype 'ps event =
    is_Call: Call widget "'ps call"
  | is_Question: Question widget string string "StandardButton list" StandardButton
  | is_Critical: Critical widget string string
  | is_ServiceCall: ServiceCall string

text \<open>
  How a service call ends for the caller: with a response, or with
  \<^verbatim>\<open>rospy.ServiceException\<close>, the exception rospy raises when a service call fails;
  it carries the text that \<^verbatim>\<open>"%s" % e\<close> prints.
\<close>

datatype service_outcome = Response | ServiceException string

text \<open>The exceptions that leave a function of the panel.\<close>

datatype exn = TypeError | SystemExit | AttributeError

text \<open>
  Modelled from the spec: \<^verbatim>\<open>self.tr\<close> is Qt's translation lookup, inherited from the
  widget base class. The spec gives every tooltip and dialog text as the literal in the
  source, which is what the lookup returns when no translation is installed.
\<close>

definition tr :: "string \<Rightarrow> string" where
  "tr s = s"

subsection \<open>The panel's own state\<close>

text \<open>
  The fields the handlers read or write. (\<^verbatim>\<open>name\<close>, \<^verbatim>\<open>max_icon_size\<close>,
  \<^verbatim>\<open>message\<close>, \<^verbatim>\<open>_raw_byte\<close> and \<^verbatim>\<open>digital_outs\<close> are set once in
  \<^verbatim>\<open>setup\<close> and never used again.)
\<close>

record 'ps PR2Dashboard =
  motor_namespace :: string
  dashboard_message :: "'ps DashboardState option"
  last_dashboard_message_time :: real

text \<open>
  One run of a handler: the panel it leaves, the events in the order they happened,
  and the exception that left the handler, if one did.
\<close>

record 'ps run =
  panel :: "'ps PR2Dashboard"
  events :: "'ps event list"
  raised :: "exn option"

subsection \<open>dashboard\_callback\<close>

text \<open>
  The subscriber callback. \<open>now\<close> is what \<^verbatim>\<open>rospy.get_time()\<close> returns. The three
  \<^verbatim>\<open>if\<close> statements run one after the other; inside the power-board branch the
  \<^verbatim>\<open>if\<close>/\<^verbatim>\<open>elif\<close> on \<^verbatim>\<open>run_stop\<close> is followed by a separate \<^verbatim>\<open>if\<close> on
  \<^verbatim>\<open>wireless_stop\<close>.
\<close>

definition dashboard_callback ::
  "'ps PR2Dashboard \<Rightarrow> real \<Rightarrow> 'ps DashboardState \<Rightarrow> 'ps run" where
  "dashboard_callback self now msg =
    \<lparr>panel = self\<lparr>dashboard_message := Some msg, last_dashboard_message_time := now\<rparr>,
     events =
     (if motors_halted_valid msg then
        (if \<not> data (motors_halted msg) then
           [Call motors set_ok,
            Call motors (setToolTip (tr ''Motors: Running''))]
         else
           [Call motors set_error,
            Call motors (setToolTip (tr ''Motors: Halted''))])
      else
        [Call motors set_stale,
         Call motors (setToolTip (tr ''Motors: Stale''))])
     @
     (if power_state_valid msg then
        [Call (batteries ! 0) (set_power_state (power_state msg))]
      else
        [Call (batteries ! 0) set_stale])
     @
     (if power_board_state_valid msg then
        map (\<lambda>breaker. Call breaker (set_power_board_state_msg (power_board_state msg))) breakers
        @
        (if run_stop (power_board_state msg) then
           [Call runstop set_ok,
            Call runstop (setToolTip (tr ''Physical Runstop: OK\<newline>Wireless Runstop: OK''))]
         else if wireless_stop (power_board_state msg) then
           [Call runstop set_physical_engaged,
            Call runstop (setToolTip (tr ''Physical Runstop: Pressed\<newline>Wireless Runstop: OK''))]
         else [])
        @
        (if \<not> wireless_stop (power_board_state msg) then
           [Call runstop set_wireless_engaged,
            Call runstop (setToolTip (tr ''Physical Runstop: Unknown\<newline>Wireless Runstop: Pressed''))]
         else [])
      else
        map (\<lambda>breaker. Call breaker reset) breakers
        @
        [Call runstop set_stale,
         Call runstop (setToolTip (tr ''Physical Runstop: Stale\<newline>Wireless Runstop: Stale''))]),
     raised = None\<rparr>"

subsection \<open>on\_reset\_motors and on\_halt\_motors\<close>

text \<open>
  \<^verbatim>\<open>reduce(function, sequence)\<close> with no initial value, the Python 2 builtin: a left
  fold that starts from the first element, and a \<^verbatim>\<open>TypeError\<close> on an empty
  sequence.
\<close>

fun reduce :: "('a \<Rightarrow> 'a \<Rightarrow> 'a) \<Rightarrow> 'a list \<Rightarrow> exn + 'a" where
  "reduce f [] = Inl TypeError"
| "reduce f (x # xs) = Inr (foldl f x xs)"

text \<open>
  The local \<^verbatim>\<open>all_breakers_enabled\<close> of \<^verbatim>\<open>on_reset_motors\<close>, computed from the last
  message: the conjunction, by \<^verbatim>\<open>reduce\<close>, of \<^verbatim>\<open>state == PowerBoardState.STATE_ON\<close>
  over the circuit states.
\<close>

definition all_breakers_enabled :: "'ps DashboardState \<Rightarrow> exn + bool" where
  "all_breakers_enabled msg =
     reduce (\<lambda>x y. x \<and> y)
       (map (\<lambda>state. state = STATE_ON) (circuit_state (power_board_state msg)))"

text \<open>
  The handler of the "reset motors" action. \<open>answer\<close> is the button the user chooses
  if the question dialog is shown, \<open>outcome\<close> is how the service call ends if it is
  made.
\<close>

definition on_reset_motors ::
  "'ps PR2Dashboard \<Rightarrow> StandardButton \<Rightarrow> service_outcome \<Rightarrow> 'ps run" where
  "on_reset_motors self answer outcome =
    (case
       (case dashboard_message self of
          None \<Rightarrow> Inr []
        | Some msg \<Rightarrow>
            if power_board_state_valid msg then
              (case all_breakers_enabled msg of
                 Inl e \<Rightarrow> Inl e
               | Inr enabled \<Rightarrow>
                   Inr (if \<not> enabled then
                          Question (breakers ! 0) (tr ''Enable Breakers?'')
                            (tr ''Resetting the motors may not work because not all breakers are enabled.  Enable all the breakers first?'')
                            [Yes, No] Yes
                          # (if answer = Yes then map (\<lambda>breaker. Call breaker set_enable) breakers
                             else [])
                        else []))
            else Inr [])
     of
       Inl e \<Rightarrow> \<lparr>panel = self, events = [], raised = Some e\<rparr>
     | Inr asked \<Rightarrow>
         \<lparr>panel = self,
          events =
          asked
          @ ServiceCall (motor_namespace self @ ''/reset_motors'')
          # (case outcome of
               Response \<Rightarrow> []
             | ServiceException e \<Rightarrow>
                 [Critical (breakers ! 0) ''Error''
                    (''Failed to reset the motors: service call failed with error: '' @ e)]),
          raised = None\<rparr>)"

text \<open>The handler of the "halt motors" action.\<close>

definition on_halt_motors ::
  "'ps PR2Dashboard \<Rightarrow> service_outcome \<Rightarrow> 'ps run" where
  "on_halt_motors self outcome =
    \<lparr>panel = self,
     events =
     ServiceCall (motor_namespace self @ ''/halt_motors'')
     # (case outcome of
          Response \<Rightarrow> []
        | ServiceException e \<Rightarrow>
            [Critical motors ''Error''
               (''Failed to halt the motors: service call failed with error: '' @ e)]),
     raised = None\<rparr>"

subsection \<open>setup and add\_arguments\<close>

text \<open>
  An option of an \<^verbatim>\<open>argparse\<close> parser, as \<^verbatim>\<open>add_argument\<close> declares it (all options
  here have \<^verbatim>\<open>type=str\<close>), and a parser as the list of its options.
\<close>

record argument =
  option_string :: string
  dest :: string
  default_value :: string

definition add_arguments :: "argument list \<Rightarrow> argument list" where
  "add_arguments parser =
     parser @ [\<lparr>option_string = ''--motor-namespace'', dest = ''motor_namespace'',
                default_value = ''pr2_ethercat''\<rparr>]"

text \<open>
  \<^verbatim>\<open>parse_args\<close> belongs to Python's library. The argument list is taken as the
  library reads it, a sequence of (option string, value) occurrences: an option that the
  parser does not know ends the program (\<^verbatim>\<open>SystemExit\<close>), every destination gets the
  value of the last occurrence of its option, or else the option's default.
\<close>

definition parse_args :: "argument list \<Rightarrow> (string \<times> string) list \<Rightarrow> exn + (string \<rightharpoonup> string)" where
  "parse_args parser argv =
     (if list_all (\<lambda>(opt, v). opt \<in> set (map option_string parser)) argv then
        Inr (\<lambda>d. case find (\<lambda>a. dest a = d) parser of
                    None \<Rightarrow> None
                  | Some a \<Rightarrow>
                      (case find (\<lambda>(opt, v). opt = option_string a) (rev argv) of
                         None \<Rightarrow> Some (default_value a)
                       | Some (opt, v) \<Rightarrow> Some v))
      else Inl SystemExit)"

text \<open>
  \<^verbatim>\<open>setup\<close>: the parser is created empty (\<^verbatim>\<open>add_help=False\<close>), gets the panel's option,
  and reads the plugin's argument list; no message has been received yet.
\<close>

definition setup_panel :: "(string \<times> string) list \<Rightarrow> exn + 'ps PR2Dashboard" where
  "setup_panel argv =
     (case parse_args (add_arguments []) argv of
        Inl e \<Rightarrow> Inl e
      | Inr args \<Rightarrow>
          (case args ''motor_namespace'' of
             None \<Rightarrow> Inl AttributeError
           | Some ns \<Rightarrow>
               Inr \<lparr>motor_namespace = ns, dashboard_message = None,
                    last_dashboard_message_time = 0\<rparr>))"

subsection \<open>What the widgets show\<close>

text \<open>
  Modelled from the spec: the widget classes (\<^verbatim>\<open>pr2_motors\<close>, \<^verbatim>\<open>pr2_battery\<close>,
  \<^verbatim>\<open>pr2_breaker\<close>, \<^verbatim>\<open>pr2_runstop\<close>) are imported, not part of the panel's file. The
  data model gives each indicator a display state and a tooltip text, with no blending:
  the indicator shows what the last request asked for. A breaker that is reset shows
  its default, disabled state; one that is handed the power-board state shows that
  state; a battery that is handed a power state shows it. Indicator state is written
  by the status callback alone: the enable request that the reset handler sends to a
  breaker asks for an action and leaves what the breaker shows, and its tooltip, as
  they are.
\<close>

datatype 'ps display =
    Disabled
  | Ok
  | Error
  | Stale
  | Physical_engaged
  | Wireless_engaged
  | Power 'ps
  | Board PowerBoardState

record 'ps indicator =
  shown :: "'ps display"
  tooltip :: string

fun receive :: "'ps call \<Rightarrow> 'ps indicator \<Rightarrow> 'ps indicator" where
  "receive set_ok w = w\<lparr>shown := Ok\<rparr>"
| "receive set_error w = w\<lparr>shown := Error\<rparr>"
| "receive set_stale w = w\<lparr>shown := Stale\<rparr>"
| "receive set_physical_engaged w = w\<lparr>shown := Physical_engaged\<rparr>"
| "receive set_wireless_engaged w = w\<lparr>shown := Wireless_engaged\<rparr>"
| "receive (setToolTip s) w = w\<lparr>tooltip := s\<rparr>"
| "receive (set_power_state ps) w = w\<lparr>shown := Power ps\<rparr>"
| "receive (set_power_board_state_msg pbs) w = w\<lparr>shown := Board pbs\<rparr>"
| "receive reset w = w\<lparr>shown := Disabled\<rparr>"
| "receive set_enable w = w"

text \<open>The indicators of the panel, by widget; an event that is a call changes its target.\<close>

type_synonym 'ps widgets = "widget \<Rightarrow> 'ps indicator"

fun deliver :: "'ps event \<Rightarrow> 'ps widgets \<Rightarrow> 'ps widgets" where
  "deliver (Call w r) ws = ws(w := receive r (ws w))"
| "deliver (Question parent title txt buttons dflt) ws = ws"
| "deliver (Critical parent title txt) ws = ws"
| "deliver (ServiceCall name) ws = ws"

definition after :: "'ps widgets \<Rightarrow> 'ps event list \<Rightarrow> 'ps widgets" where
  "after ws evs = fold deliver evs ws"

text \<open>The calls a list of events makes on one widget, in order.\<close>

fun calls_on :: "widget \<Rightarrow> 'ps event list \<Rightarrow> 'ps call list" where
  "calls_on w [] = []"
| "calls_on w (Call w' r # evs) = (if w' = w then r # calls_on w evs else calls_on w evs)"
| "calls_on w (e # evs) = calls_on w evs"

subsection \<open>The conditions of the reset handler, in the spec's words\<close>

text \<open>
  When the spec has the confirmation prompt shown: a last-received status exists, its
  power-board section is valid, and not every entry of its circuit states equals ON.
\<close>

definition prompt_due :: "'ps PR2Dashboard \<Rightarrow> bool" where
  "prompt_due self =
     (case dashboard_message self of
        None \<Rightarrow> False
      | Some msg \<Rightarrow>
          power_board_state_valid msg
          \<and> \<not> list_all (\<lambda>state. state = STATE_ON) (circuit_state (power_board_state msg)))"

text \<open>
  The data model's invariant: a status carries one circuit state for each breaker
  widget, three in all. A panel that has received no status satisfies it.
\<close>

definition circuit_state_per_breaker :: "'ps PR2Dashboard \<Rightarrow> bool" where
  "circuit_state_per_breaker self =
     (case dashboard_message self of
        None \<Rightarrow> True
      | Some msg \<Rightarrow> length (circuit_state (power_board_state msg)) = length breakers)"

text \<open>
  The case that invariant excludes and in which \<^verbatim>\<open>reduce\<close> has nothing to fold: a
  last-received status with a valid power-board section and no circuit state at all.
\<close>

definition no_circuit_state :: "'ps PR2Dashboard \<Rightarrow> bool" where
  "no_circuit_state self =
     (case dashboard_message self of
        None \<Rightarrow> False
      | Some msg \<Rightarrow> power_board_state_valid msg \<and> circuit_state (power_board_state msg) = [])"

section \<open>Properties\<close>

lemmas widget_defs = motors_def batteries_def breakers_def runstop_def

text \<open>
  C4. The motor indicator after any message: Stale with tooltip "Motors: Stale" when
  \<open>motors_halted_valid\<close> is false, whatever \<open>motors_halted\<close> holds; otherwise Error with
  "Motors: Halted" when the motors are halted and Ok with "Motors: Running" when they
  are not. The calls the callback makes on the motor widget are exactly the state
  setter and the tooltip setter of that case.
\<close>

theorem C4_motor_indicator:
  "after ws (events (dashboard_callback self now msg)) motors =
     (if \<not> motors_halted_valid msg then \<lparr>shown = Stale, tooltip = ''Motors: Stale''\<rparr>
      else if data (motors_halted msg) then \<lparr>shown = Error, tooltip = ''Motors: Halted''\<rparr>
      else \<lparr>shown = Ok, tooltip = ''Motors: Running''\<rparr>)
   \<and> calls_on motors (events (dashboard_callback self now msg)) =
     (if \<not> motors_halted_valid msg then [set_stale, setToolTip ''Motors: Stale'']
      else if data (motors_halted msg) then [set_error, setToolTip ''Motors: Halted'']
      else [set_ok, setToolTip ''Motors: Running''])"
  by (simp add: dashboard_callback_def after_def widget_defs tr_def)

text \<open>
  C1. For a message whose power-board section is valid, the runstop indicator ends as
  the sequential overwrite leaves it, by (\<open>run_stop\<close>, \<open>wireless_stop\<close>): (true, true)
  Ok; (true, false) wireless-engaged; (false, true) physical-engaged; (false, false)
  wireless-engaged, each with its two-line tooltip (the claim writes the line break as
  " / "). The calls on the runstop widget show the overwrite: for (true, false) the
  widget is first set Ok and then set wireless-engaged.
\<close>

theorem C1_runstop_sequential_overwrite:
  assumes "power_board_state_valid msg"
  shows "after ws (events (dashboard_callback self now msg)) runstop =
           (if run_stop (power_board_state msg) then
              (if wireless_stop (power_board_state msg) then
                 \<lparr>shown = Ok, tooltip = ''Physical Runstop: OK\<newline>Wireless Runstop: OK''\<rparr>
               else
                 \<lparr>shown = Wireless_engaged,
                  tooltip = ''Physical Runstop: Unknown\<newline>Wireless Runstop: Pressed''\<rparr>)
            else
              (if wireless_stop (power_board_state msg) then
                 \<lparr>shown = Physical_engaged,
                  tooltip = ''Physical Runstop: Pressed\<newline>Wireless Runstop: OK''\<rparr>
               else
                 \<lparr>shown = Wireless_engaged,
                  tooltip = ''Physical Runstop: Unknown\<newline>Wireless Runstop: Pressed''\<rparr>))
       \<and> calls_on runstop (events (dashboard_callback self now msg)) =
           (if run_stop (power_board_state msg) then
              [set_ok, setToolTip ''Physical Runstop: OK\<newline>Wireless Runstop: OK'']
            else if wireless_stop (power_board_state msg) then
              [set_physical_engaged,
               setToolTip ''Physical Runstop: Pressed\<newline>Wireless Runstop: OK'']
            else [])
           @
           (if \<not> wireless_stop (power_board_state msg) then
              [set_wireless_engaged,
               setToolTip ''Physical Runstop: Unknown\<newline>Wireless Runstop: Pressed'']
            else [])"
  using assms by (simp add: dashboard_callback_def after_def widget_defs tr_def)

text \<open>The case (true, false): set Ok, then overwritten.\<close>

theorem C1_runstop_witness:
  "after (\<lambda>w. \<lparr>shown = Disabled, tooltip = []\<rparr>)
     (events (dashboard_callback
        \<lparr>motor_namespace = ''pr2_ethercat'', dashboard_message = None,
         last_dashboard_message_time = 0\<rparr> 1
        \<lparr>motors_halted_valid = True, motors_halted = \<lparr>data = False\<rparr>,
         power_state_valid = False, power_state = (0::nat),
         power_board_state_valid = True,
         power_board_state = \<lparr>circuit_state = [STATE_ON, STATE_ON, STATE_ON],
                               run_stop = True, wireless_stop = False\<rparr>\<rparr>)) runstop
   = \<lparr>shown = Wireless_engaged,
      tooltip = ''Physical Runstop: Unknown\<newline>Wireless Runstop: Pressed''\<rparr>
   \<and> calls_on runstop
     (events (dashboard_callback
        \<lparr>motor_namespace = ''pr2_ethercat'', dashboard_message = None,
         last_dashboard_message_time = 0\<rparr> 1
        \<lparr>motors_halted_valid = True, motors_halted = \<lparr>data = False\<rparr>,
         power_state_valid = False, power_state = (0::nat),
         power_board_state_valid = True,
         power_board_state = \<lparr>circuit_state = [STATE_ON, STATE_ON, STATE_ON],
                               run_stop = True, wireless_stop = False\<rparr>\<rparr>))
   = [set_ok, setToolTip ''Physical Runstop: OK\<newline>Wireless Runstop: OK'',
      set_wireless_engaged,
      setToolTip ''Physical Runstop: Unknown\<newline>Wireless Runstop: Pressed'']"
  using C1_runstop_sequential_overwrite
    [of "\<lparr>motors_halted_valid = True, motors_halted = \<lparr>data = False\<rparr>,
         power_state_valid = False, power_state = (0::nat),
         power_board_state_valid = True,
         power_board_state = \<lparr>circuit_state = [STATE_ON, STATE_ON, STATE_ON],
                               run_stop = True, wireless_stop = False\<rparr>\<rparr>"
        "\<lambda>w. \<lparr>shown = Disabled, tooltip = []\<rparr>"
        "\<lparr>motor_namespace = ''pr2_ethercat'', dashboard_message = None,
         last_dashboard_message_time = 0\<rparr>" 1]
  by simp

text \<open>
  C7. The battery widget gets exactly one call per message: \<open>set_power_state\<close> with the
  message's \<open>power_state\<close>, unchanged, when \<open>power_state_valid\<close> holds, and \<open>set_stale\<close>
  otherwise; the indicator then shows that power state, or Stale.
\<close>

theorem C7_battery:
  "calls_on (batteries ! 0) (events (dashboard_callback self now msg)) =
     (if power_state_valid msg then [set_power_state (power_state msg)] else [set_stale])
   \<and> after ws (events (dashboard_callback self now msg)) (batteries ! 0) =
     (ws (batteries ! 0))
       \<lparr>shown := (if power_state_valid msg then Power (power_state msg) else Stale)\<rparr>"
  by (simp add: dashboard_callback_def after_def widget_defs tr_def)

text \<open>
  C5. For a message whose power-board section is not valid, each of the three breaker
  widgets gets exactly one call, \<open>reset\<close> (so none is handed the power-board state), and
  shows its default, disabled state; the runstop indicator is Stale with the tooltip
  that names both runstops stale.
\<close>

theorem C5_power_board_invalid:
  assumes "\<not> power_board_state_valid msg"
  shows "length breakers = 3
       \<and> (\<forall>breaker \<in> set breakers.
            calls_on breaker (events (dashboard_callback self now msg)) = [reset]
          \<and> after ws (events (dashboard_callback self now msg)) breaker
              = (ws breaker)\<lparr>shown := Disabled\<rparr>)
       \<and> after ws (events (dashboard_callback self now msg)) runstop =
            \<lparr>shown = Stale,
             tooltip = ''Physical Runstop: Stale\<newline>Wireless Runstop: Stale''\<rparr>"
  using assms by (simp add: dashboard_callback_def after_def widget_defs tr_def)

theorem C5_power_board_invalid_witness:
  "calls_on (PR2BreakerButton ''Base'' 1)
     (events (dashboard_callback
        \<lparr>motor_namespace = ''pr2_ethercat'', dashboard_message = None,
         last_dashboard_message_time = 0\<rparr> 1
        \<lparr>motors_halted_valid = True, motors_halted = \<lparr>data = False\<rparr>,
         power_state_valid = False, power_state = (0::nat),
         power_board_state_valid = False,
         power_board_state = \<lparr>circuit_state = [STATE_ON, STATE_ON, STATE_ON],
                               run_stop = True, wireless_stop = True\<rparr>\<rparr>))
   = [reset]
   \<and> after (\<lambda>w. \<lparr>shown = Ok, tooltip = ''Base''\<rparr>)
     (events (dashboard_callback
        \<lparr>motor_namespace = ''pr2_ethercat'', dashboard_message = None,
         last_dashboard_message_time = 0\<rparr> 1
        \<lparr>motors_halted_valid = True, motors_halted = \<lparr>data = False\<rparr>,
         power_state_valid = False, power_state = (0::nat),
         power_board_state_valid = False,
         power_board_state = \<lparr>circuit_state = [STATE_ON, STATE_ON, STATE_ON],
                               run_stop = True, wireless_stop = True\<rparr>\<rparr>))
     (PR2BreakerButton ''Base'' 1)
   = \<lparr>shown = Disabled, tooltip = ''Base''\<rparr>"
  using C5_power_board_invalid
    [of "\<lparr>motors_halted_valid = True, motors_halted = \<lparr>data = False\<rparr>,
         power_state_valid = False, power_state = (0::nat),
         power_board_state_valid = False,
         power_board_state = \<lparr>circuit_state = [STATE_ON, STATE_ON, STATE_ON],
                               run_stop = True, wireless_stop = True\<rparr>\<rparr>"
        "\<lparr>motor_namespace = ''pr2_ethercat'', dashboard_message = None,
         last_dashboard_message_time = 0\<rparr>" 1
        "\<lambda>w. \<lparr>shown = Ok, tooltip = ''Base''\<rparr>"]
  by (simp add: breakers_def)

subsection \<open>Delivering the same events twice\<close>

lemma events_independent_of_panel:
  "events (dashboard_callback self' now' msg) = events (dashboard_callback self now msg)"
  by (simp add: dashboard_callback_def)

text \<open>What a widget shows depends on the calls made on it, and on nothing else.\<close>

lemma after_calls_on: "after ws evs w = fold receive (calls_on w evs) (ws w)"
  unfolding after_def
proof (induction evs arbitrary: ws)
  case Nil
  show ?case by simp
next
  case (Cons e evs)
  show ?case by (cases e) (simp_all add: Cons.IH)
qed

text \<open>
  A sequence of calls either leaves the display state alone or sets it to a value that
  does not depend on what was shown before; the same holds for the tooltip.
\<close>

lemma shown_fold_receive:
  "(\<forall>i. shown (fold receive cs i) = shown i) \<or> (\<exists>d. \<forall>i. shown (fold receive cs i) = d)"
proof (induction cs)
  case Nil
  show ?case by simp
next
  case (Cons c cs)
  from Cons.IH show ?case
  proof
    assume keep: "\<forall>i. shown (fold receive cs i) = shown i"
    show ?thesis by (cases c) (simp_all add: keep)
  next
    assume "\<exists>d. \<forall>i. shown (fold receive cs i) = d"
    then show ?thesis by auto
  qed
qed

lemma tooltip_fold_receive:
  "(\<forall>i. tooltip (fold receive cs i) = tooltip i)
   \<or> (\<exists>t. \<forall>i. tooltip (fold receive cs i) = t)"
proof (induction cs)
  case Nil
  show ?case by simp
next
  case (Cons c cs)
  from Cons.IH show ?case
  proof
    assume keep: "\<forall>i. tooltip (fold receive cs i) = tooltip i"
    show ?thesis by (cases c) (simp_all add: keep)
  next
    assume "\<exists>t. \<forall>i. tooltip (fold receive cs i) = t"
    then show ?thesis by auto
  qed
qed

lemma fold_receive_twice: "fold receive cs (fold receive cs i) = fold receive cs i"
proof -
  have "shown (fold receive cs (fold receive cs i)) = shown (fold receive cs i)"
    using shown_fold_receive [of cs] by auto
  moreover have "tooltip (fold receive cs (fold receive cs i)) = tooltip (fold receive cs i)"
    using tooltip_fold_receive [of cs] by auto
  ultimately show ?thesis by simp
qed

lemma after_twice: "after (after ws evs) evs = after ws evs"
  by (rule ext) (simp add: after_calls_on fold_receive_twice)

text \<open>
  C6. A second delivery of the same message, at any later time and to the panel the
  first delivery left, makes the same calls as the first, and every widget shows after
  it what it showed after the first, state and tooltip alike.
\<close>

theorem C6_idempotent:
  "events (dashboard_callback (panel (dashboard_callback self now msg)) now' msg)
     = events (dashboard_callback self now msg)
   \<and> after (after ws (events (dashboard_callback self now msg)))
         (events (dashboard_callback (panel (dashboard_callback self now msg)) now' msg))
     = after ws (events (dashboard_callback self now msg))"
proof -
  have same: "events (dashboard_callback (panel (dashboard_callback self now msg)) now' msg)
                = events (dashboard_callback self now msg)"
    by (rule events_independent_of_panel)
  show ?thesis
    unfolding same by (simp only: after_twice)
qed

subsection \<open>The reset handler, case by case\<close>

lemma foldl_conj: "foldl (\<lambda>x y. x \<and> y) b bs = (b \<and> list_all (\<lambda>x. x) bs)"
  by (induction bs arbitrary: b) auto

lemma all_breakers_enabled_eq:
  "all_breakers_enabled msg =
     (if circuit_state (power_board_state msg) = [] then Inl TypeError
      else Inr (list_all (\<lambda>state. state = STATE_ON) (circuit_state (power_board_state msg))))"
  by (cases "circuit_state (power_board_state msg)")
     (auto simp add: all_breakers_enabled_def foldl_conj list_all_iff)

lemma on_reset_motors_eq:
  "on_reset_motors self answer outcome =
     (if no_circuit_state self then \<lparr>panel = self, events = [], raised = Some TypeError\<rparr>
      else
        \<lparr>panel = self,
         events =
           (if prompt_due self then
              Question (breakers ! 0) ''Enable Breakers?''
                ''Resetting the motors may not work because not all breakers are enabled.  Enable all the breakers first?''
                [Yes, No] Yes
              # (if answer = Yes then map (\<lambda>breaker. Call breaker set_enable) breakers else [])
            else [])
           @ ServiceCall (motor_namespace self @ ''/reset_motors'')
           # (case outcome of
                Response \<Rightarrow> []
              | ServiceException e \<Rightarrow>
                  [Critical (breakers ! 0) ''Error''
                     (''Failed to reset the motors: service call failed with error: '' @ e)]),
         raised = None\<rparr>)"
  by (simp add: on_reset_motors_def all_breakers_enabled_eq no_circuit_state_def prompt_due_def
        tr_def split: option.split)

text \<open>
  C9. The all-breakers-enabled check is \<^verbatim>\<open>reduce\<close> with no initial value: on a
  non-empty sequence of circuit states it is the conjunction of "entry is ON" over all
  entries, on an empty one it is a \<^verbatim>\<open>TypeError\<close>. When the last status has a valid
  power-board section and no circuit state, the handler ends with that error and has
  shown no dialog and called no service.
\<close>

theorem C9_all_breakers_check:
  "all_breakers_enabled msg =
     (if circuit_state (power_board_state msg) = [] then Inl TypeError
      else Inr (list_all (\<lambda>state. state = STATE_ON) (circuit_state (power_board_state msg))))
   \<and> (dashboard_message self = Some msg \<and> power_board_state_valid msg
        \<and> circuit_state (power_board_state msg) = []
      \<longrightarrow> on_reset_motors self answer outcome
            = \<lparr>panel = self, events = [], raised = Some TypeError\<rparr>)"
  by (simp add: all_breakers_enabled_eq on_reset_motors_def)

theorem C9_all_breakers_check_witness:
  "on_reset_motors
     \<lparr>motor_namespace = ''pr2_ethercat'',
      dashboard_message = Some
        \<lparr>motors_halted_valid = True, motors_halted = \<lparr>data = True\<rparr>,
         power_state_valid = False, power_state = (0::nat),
         power_board_state_valid = True,
         power_board_state = \<lparr>circuit_state = [], run_stop = True, wireless_stop = True\<rparr>\<rparr>,
      last_dashboard_message_time = 1\<rparr> Yes Response
   = \<lparr>panel =
        \<lparr>motor_namespace = ''pr2_ethercat'',
         dashboard_message = Some
           \<lparr>motors_halted_valid = True, motors_halted = \<lparr>data = True\<rparr>,
            power_state_valid = False, power_state = (0::nat),
            power_board_state_valid = True,
            power_board_state = \<lparr>circuit_state = [], run_stop = True, wireless_stop = True\<rparr>\<rparr>,
         last_dashboard_message_time = 1\<rparr>,
      events = [], raised = Some TypeError\<rparr>"
  using C9_all_breakers_check
    [of "\<lparr>motors_halted_valid = True, motors_halted = \<lparr>data = True\<rparr>,
         power_state_valid = False, power_state = (0::nat),
         power_board_state_valid = True,
         power_board_state = \<lparr>circuit_state = [], run_stop = True, wireless_stop = True\<rparr>\<rparr>"
        "\<lparr>motor_namespace = ''pr2_ethercat'',
          dashboard_message = Some
            \<lparr>motors_halted_valid = True, motors_halted = \<lparr>data = True\<rparr>,
             power_state_valid = False, power_state = (0::nat),
             power_board_state_valid = True,
             power_board_state = \<lparr>circuit_state = [], run_stop = True, wireless_stop = True\<rparr>\<rparr>,
          last_dashboard_message_time = 1\<rparr>" Yes Response]
  by simp

text \<open>
  C10. The halt handler returns the panel it was given, so the last-received status
  and its time stamp are what they were; it calls no widget, so every indicator keeps
  its state and tooltip. All it does is call the halt service and, when that call
  fails, show the error dialog; no exception leaves it.
\<close>

theorem C10_halt_frame:
  "panel (on_halt_motors self outcome) = self
   \<and> dashboard_message (panel (on_halt_motors self outcome)) = dashboard_message self
   \<and> last_dashboard_message_time (panel (on_halt_motors self outcome))
       = last_dashboard_message_time self
   \<and> filter is_Call (events (on_halt_motors self outcome)) = []
   \<and> after ws (events (on_halt_motors self outcome)) = ws
   \<and> events (on_halt_motors self outcome) =
       ServiceCall (motor_namespace self @ ''/halt_motors'')
       # (case outcome of
            Response \<Rightarrow> []
          | ServiceException e \<Rightarrow>
              [Critical motors ''Error''
                 (''Failed to halt the motors: service call failed with error: '' @ e)])
   \<and> raised (on_halt_motors self outcome) = None"
  by (cases outcome) (simp_all add: on_halt_motors_def after_def)

subsection \<open>The service names\<close>

lemma find_last_occurrence:
  assumes "list_all P xs"
  shows "find P (rev xs) = (if xs = [] then None else Some (last xs))"
  using assms by (cases xs rule: rev_cases) simp_all

text \<open>
  C8. \<open>add_arguments\<close> declares one option, \<^verbatim>\<open>--motor-namespace\<close>, with default
  \<^verbatim>\<open>pr2_ethercat\<close>; \<open>setup\<close> stores that default when the argument list does not give
  the option and the last value given otherwise. Whenever the reset handler calls a
  service it is the one named by that prefix followed by \<^verbatim>\<open>/reset_motors\<close>, and the
  halt handler calls the one named by the prefix followed by \<^verbatim>\<open>/halt_motors\<close>.
\<close>

theorem C8_endpoints:
  fixes self :: "'ps PR2Dashboard"
  shows
  "add_arguments [] =
     [\<lparr>option_string = ''--motor-namespace'', dest = ''motor_namespace'',
       default_value = ''pr2_ethercat''\<rparr>]
   \<and> (setup_panel [] :: exn + 'ps PR2Dashboard) =
       Inr \<lparr>motor_namespace = ''pr2_ethercat'', dashboard_message = None,
            last_dashboard_message_time = 0\<rparr>
   \<and> (list_all (\<lambda>(opt, v). opt = ''--motor-namespace'') argv \<longrightarrow>
       (setup_panel argv :: exn + 'ps PR2Dashboard) =
         Inr \<lparr>motor_namespace = (if argv = [] then ''pr2_ethercat'' else snd (last argv)),
              dashboard_message = None, last_dashboard_message_time = 0\<rparr>)
   \<and> filter is_ServiceCall (events (on_reset_motors self answer outcome)) =
       (if no_circuit_state self then []
        else [ServiceCall (motor_namespace self @ ''/reset_motors'')])
   \<and> filter is_ServiceCall (events (on_halt_motors self outcome)) =
       [ServiceCall (motor_namespace self @ ''/halt_motors'')]"
proof -
  have declared: "add_arguments [] =
     [\<lparr>option_string = ''--motor-namespace'', dest = ''motor_namespace'',
       default_value = ''pr2_ethercat''\<rparr>]"
    by (simp add: add_arguments_def)
  have fresh: "(setup_panel [] :: exn + 'ps PR2Dashboard) =
       Inr \<lparr>motor_namespace = ''pr2_ethercat'', dashboard_message = None,
            last_dashboard_message_time = 0\<rparr>"
    by (simp add: setup_panel_def parse_args_def declared)
  have given: "(setup_panel argv :: exn + 'ps PR2Dashboard) =
         Inr \<lparr>motor_namespace = (if argv = [] then ''pr2_ethercat'' else snd (last argv)),
              dashboard_message = None, last_dashboard_message_time = 0\<rparr>"
    if only: "list_all (\<lambda>(opt, v). opt = ''--motor-namespace'') argv"
  proof -
    have "find (\<lambda>(opt, v). opt = ''--motor-namespace'') (rev argv)
            = (if argv = [] then None else Some (last argv))"
      using only by (rule find_last_occurrence)
    with only show ?thesis
      by (simp add: setup_panel_def parse_args_def declared split: prod.split)
  qed
  have reset: "filter is_ServiceCall (events (on_reset_motors self answer outcome)) =
       (if no_circuit_state self then []
        else [ServiceCall (motor_namespace self @ ''/reset_motors'')])"
    by (cases outcome) (simp_all add: on_reset_motors_eq breakers_def)
  have halt: "filter is_ServiceCall (events (on_halt_motors self outcome)) =
       [ServiceCall (motor_namespace self @ ''/halt_motors'')]"
    by (cases outcome) (simp_all add: on_halt_motors_def)
  from declared fresh given reset halt show ?thesis by blast
qed

text \<open>A panel set up with a namespace of its own calls the services under that name.\<close>

theorem C8_endpoints_witness:
  "(setup_panel [(''--motor-namespace'', ''robot'')] :: exn + nat PR2Dashboard) =
     Inr \<lparr>motor_namespace = ''robot'', dashboard_message = None,
          last_dashboard_message_time = 0\<rparr>
   \<and> filter is_ServiceCall
       (events (on_reset_motors
          \<lparr>motor_namespace = ''robot'', dashboard_message = None :: nat DashboardState option,
           last_dashboard_message_time = 0\<rparr> Yes Response))
     = [ServiceCall ''robot/reset_motors'']
   \<and> filter is_ServiceCall
       (events (on_halt_motors
          \<lparr>motor_namespace = ''robot'', dashboard_message = None :: nat DashboardState option,
           last_dashboard_message_time = 0\<rparr> Response))
     = [ServiceCall ''robot/halt_motors'']"
  using C8_endpoints
    [where argv = "[(''--motor-namespace'', ''robot'')]"
       and self = "\<lparr>motor_namespace = ''robot'',
                    dashboard_message = None :: nat DashboardState option,
                    last_dashboard_message_time = 0\<rparr>"
       and answer = Yes and outcome = Response]
  by (simp add: no_circuit_state_def)

subsection \<open>The reset handler's prompt and call\<close>

lemma circuit_state_present:
  assumes "circuit_state_per_breaker self"
  shows "\<not> no_circuit_state self"
  using assms
  by (auto simp add: circuit_state_per_breaker_def no_circuit_state_def breakers_def
        split: option.splits)

text \<open>
  C2. For a panel whose last status, if it has one, carries one circuit state per
  breaker: the question dialog (buttons Yes and No, default Yes) is shown exactly when
  a last status exists, its power-board section is valid and not every circuit state
  is ON. Each of the three breaker widgets gets one call, \<open>set_enable\<close>, when the
  dialog was shown and answered Yes, and no call otherwise. In every case the handler
  then calls the reset service, once and with an empty request, after the dialog and
  the enable requests, and that is the only service it calls; no exception leaves it.
  With no last status there is no dialog and the call is made.
\<close>

theorem C2_reset_prompt_then_call:
  assumes "circuit_state_per_breaker self"
  shows
  "filter is_Question (events (on_reset_motors self answer outcome)) =
     (if prompt_due self then
        [Question (breakers ! 0) ''Enable Breakers?''
           ''Resetting the motors may not work because not all breakers are enabled.  Enable all the breakers first?''
           [Yes, No] Yes]
      else [])
   \<and> (\<forall>breaker \<in> set breakers.
         calls_on breaker (events (on_reset_motors self answer outcome)) =
           (if prompt_due self \<and> answer = Yes then [set_enable] else []))
   \<and> filter is_ServiceCall (events (on_reset_motors self answer outcome)) =
       [ServiceCall (motor_namespace self @ ''/reset_motors'')]
   \<and> raised (on_reset_motors self answer outcome) = None
   \<and> events (on_reset_motors self answer outcome) =
       (if prompt_due self then
          Question (breakers ! 0) ''Enable Breakers?''
            ''Resetting the motors may not work because not all breakers are enabled.  Enable all the breakers first?''
            [Yes, No] Yes
          # (if answer = Yes then map (\<lambda>breaker. Call breaker set_enable) breakers else [])
        else [])
       @ ServiceCall (motor_namespace self @ ''/reset_motors'')
       # (case outcome of
            Response \<Rightarrow> []
          | ServiceException e \<Rightarrow>
              [Critical (breakers ! 0) ''Error''
                 (''Failed to reset the motors: service call failed with error: '' @ e)])
   \<and> (dashboard_message self = None \<longrightarrow>
         filter is_Question (events (on_reset_motors self answer outcome)) = []
       \<and> filter is_ServiceCall (events (on_reset_motors self answer outcome)) =
           [ServiceCall (motor_namespace self @ ''/reset_motors'')])"
proof -
  have present: "\<not> no_circuit_state self"
    using assms by (rule circuit_state_present)
  have fresh: "\<not> prompt_due self" if "dashboard_message self = None"
    using that by (simp add: prompt_due_def)
  show ?thesis
    using present fresh
    by (cases outcome) (auto simp add: on_reset_motors_eq breakers_def)
qed

text \<open>Two breakers on and one on standby, answered Yes; and a panel with no status.\<close>

theorem C2_reset_prompt_then_call_witness:
  "events (on_reset_motors
       \<lparr>motor_namespace = ''pr2_ethercat'',
        dashboard_message = Some
          \<lparr>motors_halted_valid = True, motors_halted = \<lparr>data = True\<rparr>,
           power_state_valid = False, power_state = (0::nat),
           power_board_state_valid = True,
           power_board_state = \<lparr>circuit_state = [STATE_ON, STATE_STANDBY, STATE_ON],
                                 run_stop = True, wireless_stop = True\<rparr>\<rparr>,
        last_dashboard_message_time = 1\<rparr> Yes Response)
   = [Question (PR2BreakerButton ''Left Arm'' 0) ''Enable Breakers?''
        ''Resetting the motors may not work because not all breakers are enabled.  Enable all the breakers first?''
        [Yes, No] Yes,
      Call (PR2BreakerButton ''Left Arm'' 0) set_enable,
      Call (PR2BreakerButton ''Base'' 1) set_enable,
      Call (PR2BreakerButton ''Right Arm'' 2) set_enable,
      ServiceCall ''pr2_ethercat/reset_motors'']
   \<and> events (on_reset_motors
       \<lparr>motor_namespace = ''pr2_ethercat'', dashboard_message = None :: nat DashboardState option,
        last_dashboard_message_time = 0\<rparr> Yes Response)
   = [ServiceCall ''pr2_ethercat/reset_motors'']"
proof -
  have three: "circuit_state_per_breaker
       \<lparr>motor_namespace = ''pr2_ethercat'',
        dashboard_message = Some
          \<lparr>motors_halted_valid = True, motors_halted = \<lparr>data = True\<rparr>,
           power_state_valid = False, power_state = (0::nat),
           power_board_state_valid = True,
           power_board_state = \<lparr>circuit_state = [STATE_ON, STATE_STANDBY, STATE_ON],
                                 run_stop = True, wireless_stop = True\<rparr>\<rparr>,
        last_dashboard_message_time = 1\<rparr>"
    by (simp add: circuit_state_per_breaker_def breakers_def)
  have none: "circuit_state_per_breaker
       \<lparr>motor_namespace = ''pr2_ethercat'', dashboard_message = None :: nat DashboardState option,
        last_dashboard_message_time = 0\<rparr>"
    by (simp add: circuit_state_per_breaker_def)
  show ?thesis
    using C2_reset_prompt_then_call [OF three, of Yes Response]
      C2_reset_prompt_then_call [OF none, of Yes Response]
    by (simp add: prompt_due_def breakers_def)
qed

subsection \<open>A service call that fails\<close>

text \<open>
  C3. When the reset handler makes its service call and the call fails, or when the
  halt handler's call fails: exactly one critical dialog is shown, titled "Error",
  whose text names the action and ends with the text of the exception; the service is
  called once, so there is no retry; no exception leaves the handler; the panel, and
  with it the last-received status, is unchanged; and every indicator shows the state
  and the tooltip it showed before. The halt handler calls no widget at all; the only
  widget calls of the reset handler are the enable requests to the three breakers,
  made before the service call when its question was answered Yes.
\<close>

theorem C3_remote_failure:
  "(filter is_ServiceCall (events (on_reset_motors self answer (ServiceException e))) \<noteq> [] \<longrightarrow>
      filter is_Critical (events (on_reset_motors self answer (ServiceException e))) =
        [Critical (breakers ! 0) ''Error''
           (''Failed to reset the motors: service call failed with error: '' @ e)]
    \<and> filter is_ServiceCall (events (on_reset_motors self answer (ServiceException e))) =
        [ServiceCall (motor_namespace self @ ''/reset_motors'')]
    \<and> raised (on_reset_motors self answer (ServiceException e)) = None
    \<and> panel (on_reset_motors self answer (ServiceException e)) = self
    \<and> after ws (events (on_reset_motors self answer (ServiceException e))) = ws
    \<and> filter is_Call (events (on_reset_motors self answer (ServiceException e))) =
        (if prompt_due self \<and> answer = Yes
         then map (\<lambda>breaker. Call breaker set_enable) breakers else []))
   \<and> filter is_Critical (events (on_halt_motors self (ServiceException e))) =
        [Critical motors ''Error''
           (''Failed to halt the motors: service call failed with error: '' @ e)]
   \<and> filter is_ServiceCall (events (on_halt_motors self (ServiceException e))) =
        [ServiceCall (motor_namespace self @ ''/halt_motors'')]
   \<and> raised (on_halt_motors self (ServiceException e)) = None
   \<and> panel (on_halt_motors self (ServiceException e)) = self
   \<and> after ws (events (on_halt_motors self (ServiceException e))) = ws
   \<and> filter is_Call (events (on_halt_motors self (ServiceException e))) = []"
proof -
  have halt: "filter is_Critical (events (on_halt_motors self (ServiceException e))) =
        [Critical motors ''Error''
           (''Failed to halt the motors: service call failed with error: '' @ e)]
   \<and> filter is_ServiceCall (events (on_halt_motors self (ServiceException e))) =
        [ServiceCall (motor_namespace self @ ''/halt_motors'')]
   \<and> raised (on_halt_motors self (ServiceException e)) = None
   \<and> panel (on_halt_motors self (ServiceException e)) = self
   \<and> after ws (events (on_halt_motors self (ServiceException e))) = ws
   \<and> filter is_Call (events (on_halt_motors self (ServiceException e))) = []"
    by (simp add: on_halt_motors_def after_def)
  have reset: "filter is_Critical (events (on_reset_motors self answer (ServiceException e))) =
        [Critical (breakers ! 0) ''Error''
           (''Failed to reset the motors: service call failed with error: '' @ e)]
    \<and> filter is_ServiceCall (events (on_reset_motors self answer (ServiceException e))) =
        [ServiceCall (motor_namespace self @ ''/reset_motors'')]
    \<and> raised (on_reset_motors self answer (ServiceException e)) = None
    \<and> panel (on_reset_motors self answer (ServiceException e)) = self
    \<and> after ws (events (on_reset_motors self answer (ServiceException e))) = ws
    \<and> filter is_Call (events (on_reset_motors self answer (ServiceException e))) =
        (if prompt_due self \<and> answer = Yes
         then map (\<lambda>breaker. Call breaker set_enable) breakers else [])"
    if made: "filter is_ServiceCall (events (on_reset_motors self answer (ServiceException e))) \<noteq> []"
  proof -
    from made have "\<not> no_circuit_state self"
      by (auto simp add: on_reset_motors_eq)
    then show ?thesis
      by (auto simp add: on_reset_motors_eq breakers_def after_def)
  qed
  from halt reset show ?thesis by blast
qed

text \<open>
  The reset handler after a status with one breaker on standby, its question answered
  Yes and its call failing with "timeout": one dialog, and breakers that show what the
  status left them showing.
\<close>

theorem C3_remote_failure_witness:
  "filter is_Critical (events (on_reset_motors
       \<lparr>motor_namespace = ''pr2_ethercat'',
        dashboard_message = Some
          \<lparr>motors_halted_valid = True, motors_halted = \<lparr>data = True\<rparr>,
           power_state_valid = False, power_state = (0::nat),
           power_board_state_valid = True,
           power_board_state = \<lparr>circuit_state = [STATE_ON, STATE_STANDBY, STATE_ON],
                                 run_stop = True, wireless_stop = True\<rparr>\<rparr>,
        last_dashboard_message_time = 1\<rparr> Yes (ServiceException ''timeout'')))
   = [Critical (PR2BreakerButton ''Left Arm'' 0) ''Error''
        ''Failed to reset the motors: service call failed with error: timeout'']
   \<and> after (\<lambda>w. \<lparr>shown = Board \<lparr>circuit_state = [STATE_ON, STATE_STANDBY, STATE_ON],
                                  run_stop = True, wireless_stop = True\<rparr>,
                  tooltip = ''Base''\<rparr>)
       (events (on_reset_motors
       \<lparr>motor_namespace = ''pr2_ethercat'',
        dashboard_message = Some
          \<lparr>motors_halted_valid = True, motors_halted = \<lparr>data = True\<rparr>,
           power_state_valid = False, power_state = (0::nat),
           power_board_state_valid = True,
           power_board_state = \<lparr>circuit_state = [STATE_ON, STATE_STANDBY, STATE_ON],
                                 run_stop = True, wireless_stop = True\<rparr>\<rparr>,
        last_dashboard_message_time = 1\<rparr> Yes (ServiceException ''timeout'')))
     = (\<lambda>w. \<lparr>shown = Board \<lparr>circuit_state = [STATE_ON, STATE_STANDBY, STATE_ON],
                               run_stop = True, wireless_stop = True\<rparr>,
               tooltip = ''Base''\<rparr>)
   \<and> raised (on_reset_motors
       \<lparr>motor_namespace = ''pr2_ethercat'',
        dashboard_message = Some
          \<lparr>motors_halted_valid = True, motors_halted = \<lparr>data = True\<rparr>,
           power_state_valid = False, power_state = (0::nat),
           power_board_state_valid = True,
           power_board_state = \<lparr>circuit_state = [STATE_ON, STATE_STANDBY, STATE_ON],
                                 run_stop = True, wireless_stop = True\<rparr>\<rparr>,
        last_dashboard_message_time = 1\<rparr> Yes (ServiceException ''timeout'')) = None"
proof -
  have made: "filter is_ServiceCall (events (on_reset_motors
       \<lparr>motor_namespace = ''pr2_ethercat'',
        dashboard_message = Some
          \<lparr>motors_halted_valid = True, motors_halted = \<lparr>data = True\<rparr>,
           power_state_valid = False, power_state = (0::nat),
           power_board_state_valid = True,
           power_board_state = \<lparr>circuit_state = [STATE_ON, STATE_STANDBY, STATE_ON],
                                 run_stop = True, wireless_stop = True\<rparr>\<rparr>,
        last_dashboard_message_time = 1\<rparr> Yes (ServiceException ''timeout''))) \<noteq> []"
    by (simp add: on_reset_motors_eq no_circuit_state_def prompt_due_def breakers_def)
  show ?thesis
    using made
      C3_remote_failure
        [of "\<lparr>motor_namespace = ''pr2_ethercat'',
        dashboard_message = Some
          \<lparr>motors_halted_valid = True, motors_halted = \<lparr>data = True\<rparr>,
           power_state_valid = False, power_state = (0::nat),
           power_board_state_valid = True,
           power_board_state = \<lparr>circuit_state = [STATE_ON, STATE_STANDBY, STATE_ON],
                                 run_stop = True, wireless_stop = True\<rparr>\<rparr>,
        last_dashboard_message_time = 1\<rparr>" Yes "''timeout''"
            "\<lambda>w. \<lparr>shown = Board \<lparr>circuit_state = [STATE_ON, STATE_STANDBY, STATE_ON],
                                  run_stop = True, wireless_stop = True\<rparr>,
                  tooltip = ''Base''\<rparr>"]
    by (simp add: breakers_def)
qed

end
